theory Spec2Isabelle
  imports Complex_Main "HOL-Library.Sublist"
begin

section \<open>Data model of the real-time funding-rate monitor\<close>

text \<open>
  The development embeds \<^verbatim>\<open>real_time_monitor.py\<close> and the constants of
  \<^verbatim>\<open>config.py\<close> it reads.

  Numbers. Python floats are modelled as exact rationals (\<^typ>\<open>rat\<close>): every finite
  double is a rational, and the comparisons and the arithmetic of the source are taken
  without rounding. NaN and the infinities have no counterpart here.

  Time. A \<^verbatim>\<open>datetime\<close> with a time zone denotes an instant with microsecond
  resolution; it is modelled as the integer number of microseconds since the epoch, and a
  \<^verbatim>\<open>timedelta\<close> as a number of microseconds. \<^verbatim>\<open>total_seconds() < 60\<close>
  is then the comparison with sixty million microseconds.
\<close>

type_synonym datetime = int

definition seconds :: "int \<Rightarrow> int" where
  "seconds n = n * 1000000"

definition hours :: "int \<Rightarrow> int" where
  "hours n = seconds (n * 3600)"

datatype error = ValueError | TypeError | AttributeError | JSONDecodeError

text \<open>The dataclass \<^verbatim>\<open>FundingUpdate\<close>.\<close>

record FundingUpdate =
  symbol :: string
  funding_rate :: rat
  apr :: rat
  exchange :: string
  timestamp :: datetime
  change_percent :: rat

text \<open>
  Construction: the generated \<^verbatim>\<open>__init__\<close> stores the six fields and then runs
  \<^verbatim>\<open>__post_init__\<close>, which raises \<^verbatim>\<open>ValueError\<close> on a bad symbol or a
  rate beyond 50 and fills in the APR when it was given as 0.
\<close>

definition post_init :: "FundingUpdate \<Rightarrow> error + FundingUpdate" where
  "post_init self =
     (if symbol self = [] \<or> length (symbol self) < 2 then Inl ValueError
      else if \<bar>funding_rate self\<bar> > 50 then Inl ValueError
      else if apr self = 0
        then Inr (self\<lparr>apr := \<bar>funding_rate self\<bar> * 3 * 365\<rparr>)
        else Inr self)"

definition new_FundingUpdate ::
  "string \<Rightarrow> rat \<Rightarrow> rat \<Rightarrow> string \<Rightarrow> datetime \<Rightarrow> rat \<Rightarrow> error + FundingUpdate" where
  "new_FundingUpdate smb rate a exch ts chg =
     post_init \<lparr>symbol = smb, funding_rate = rate, apr = a, exchange = exch,
                timestamp = ts, change_percent = chg\<rparr>"


definition max_reconnects :: nat where
  "max_reconnects = 10"

section \<open>The significance filter\<close>

text \<open>
  \<^verbatim>\<open>should_process_update\<close> reads and writes the dictionary
  \<^verbatim>\<open>last_funding_data\<close> and assigns \<^verbatim>\<open>update.change_percent\<close>. The model
  passes the dictionary and the event in and returns the verdict, the event as the call
  leaves it, and the dictionary as the call leaves it. The floor
  \<^verbatim>\<open>bot_config.min_apr_threshold\<close> is the first argument.

  The event is a Python object; the dictionary stores a reference to it. Its only
  assignment after construction is the one in this function, which is reached only when
  the prior of the key is at least 60 seconds older than the event, so the assigned object
  is never the stored prior, and storing the value after the assignment is what the
  reference denotes.
\<close>

definition update_key :: "FundingUpdate \<Rightarrow> string" where
  "update_key update = symbol update @ ''_'' @ exchange update"

definition should_process_update ::
  "rat \<Rightarrow> (string \<rightharpoonup> FundingUpdate) \<Rightarrow> FundingUpdate
     \<Rightarrow> bool \<times> FundingUpdate \<times> (string \<rightharpoonup> FundingUpdate)" where
  "should_process_update threshold last_funding_data update =
     (if apr update < threshold then (False, update, last_funding_data)
      else
        let key = update_key update in
        case last_funding_data key of
          Some last_update \<Rightarrow>
            let time_diff = timestamp update - timestamp last_update in
            if time_diff < seconds 60 then (False, update, last_funding_data)
            else
              let change = \<bar>funding_rate update - funding_rate last_update\<bar>;
                  chg_percent =
                    (if funding_rate last_update \<noteq> 0
                     then (change / \<bar>funding_rate last_update\<bar>) * 100 else 0);
                  update' = update\<lparr>change_percent := chg_percent\<rparr>
              in if chg_percent < 10 then (False, update', last_funding_data)
                 else (True, update', last_funding_data(key \<mapsto> update'))
        | None \<Rightarrow> (True, update, last_funding_data(key \<mapsto> update)))"

text \<open>
  The change magnitude as the specification words it: the distance to the prior rate
  relative to the prior rate's magnitude, as a percentage, and 0 for a prior rate of 0.
\<close>

definition change_magnitude :: "rat \<Rightarrow> rat \<Rightarrow> rat" where
  "change_magnitude rate prior_rate =
     (if prior_rate = 0 then 0 else \<bar>rate - prior_rate\<bar> / \<bar>prior_rate\<bar> * 100)"

section \<open>Wire payloads and Python built-ins\<close>

text \<open>
  A decoded payload is what \<^verbatim>\<open>json.loads\<close> returns: \<^verbatim>\<open>None\<close>, a bool, a
  number, a string, a list or a dict. A dict is given by its items (the keys are distinct);
  \<^verbatim>\<open>d.get(k, default)\<close> is the lookup below.
\<close>

datatype json =
    JNull
  | JBool bool
  | JNum rat
  | JStr string
  | JArr "json list"
  | JObj "(string \<times> json) list"

definition dict_get :: "(string \<times> json) list \<Rightarrow> string \<Rightarrow> json \<Rightarrow> json" where
  "dict_get d k dflt = (case map_of d k of Some v \<Rightarrow> v | None \<Rightarrow> dflt)"

text \<open>
  \<^verbatim>\<open>s.replace(old, '')\<close> for a non-empty \<^verbatim>\<open>old\<close>: every occurrence, scanning
  from the left without overlap, is removed. (The source only calls it with a non-empty
  first argument and the empty replacement; an empty \<^verbatim>\<open>old\<close> leaves \<open>s\<close> as it is
  here.)
\<close>

fun py_remove :: "string \<Rightarrow> string \<Rightarrow> string" where
  "py_remove [] s = s"
| "py_remove (c # cs) [] = []"
| "py_remove (c # cs) (x # xs) =
     (if prefix (c # cs) (x # xs) then py_remove (c # cs) (drop (length cs) xs)
      else x # py_remove (c # cs) xs)"

text \<open>
  \<^verbatim>\<open>float(v)\<close>: a number is taken as it is, a bool as 1 or 0, a string is parsed
  (\<^verbatim>\<open>ValueError\<close> when it is no number), anything else is a \<^verbatim>\<open>TypeError\<close>.
  The parsing of a string is Python's own; it is the parameter \<open>float_of_str\<close>.
\<close>

fun py_float :: "(string \<Rightarrow> rat option) \<Rightarrow> json \<Rightarrow> error + rat" where
  "py_float float_of_str (JNum r) = Inr r"
| "py_float float_of_str (JBool b) = Inr (if b then 1 else 0)"
| "py_float float_of_str (JStr s) =
     (case float_of_str s of Some r \<Rightarrow> Inr r | None \<Rightarrow> Inl ValueError)"
| "py_float float_of_str JNull = Inl TypeError"
| "py_float float_of_str (JArr xs) = Inl TypeError"
| "py_float float_of_str (JObj d) = Inl TypeError"

text \<open>The denylist \<^verbatim>\<open>TOP_50_COINS\<close> of \<^verbatim>\<open>config.py\<close>.\<close>

definition TOP_50_COINS :: "string list" where
  "TOP_50_COINS =
    [''BTC'', ''ETH'', ''USDT'', ''XRP'', ''BNB'', ''SOL'', ''USDC'', ''TRX'',
     ''DOGE'', ''ADA'', ''WBTC'', ''SUI'', ''LINK'', ''BCH'', ''LEO'', ''XLM'',
     ''AVAX'', ''TON'', ''WBT'', ''SHIB'', ''HBAR'', ''LTC'', ''XMR'', ''DOT'',
     ''DAI'', ''BGB'', ''UNI'', ''PEPE'', ''AAVE'', ''APT'', ''TAO'', ''OKB'',
     ''NEAR'', ''ICP'', ''CRO'', ''ETC'', ''ONDO'', ''MNT'', ''TKX'', ''GT'',
     ''KAS'', ''FTN'', ''POL'', ''VET'', ''TRUMP'', ''RENDER'', ''SEI'', ''ENA'', ''FET'']"

section \<open>The source parsers\<close>

text \<open>
  The five parsers share one loop body, which differs in the field names, the two suffixes
  removed from the instrument name and the exchange label. \<open>parse_entry\<close> is that body
  for one entry: \<open>Inl e\<close> when it raises \<open>e\<close>, \<open>Inr None\<close> when it appends nothing
  (\<^verbatim>\<open>continue\<close>, or a rate of 0), \<open>Inr (Some u)\<close> when it appends \<open>u\<close>.
  \<^verbatim>\<open>item.get\<close> raises \<^verbatim>\<open>AttributeError\<close> on anything but a dict, and
  \<^verbatim>\<open>.replace\<close> on anything but a string. \<open>now\<close> is the reading of
  \<^verbatim>\<open>datetime.now\<close>, taken once for a payload.
\<close>

definition entry_rate :: "(string \<Rightarrow> rat option) \<Rightarrow> string \<Rightarrow> (string \<times> json) list \<Rightarrow> error + rat" where
  "entry_rate float_of_str rate_field d = py_float float_of_str (dict_get d rate_field (JNum 0))"

definition parse_entry ::
  "(string \<Rightarrow> rat option) \<Rightarrow> string \<Rightarrow> string \<Rightarrow> string \<Rightarrow> string \<Rightarrow> string \<Rightarrow> datetime
     \<Rightarrow> json \<Rightarrow> error + FundingUpdate option" where
  "parse_entry float_of_str name_field suffix1 suffix2 rate_field exch now item =
     (case item of
        JObj d \<Rightarrow>
          (case dict_get d name_field (JStr []) of
             JStr s \<Rightarrow>
               let smb = py_remove suffix2 (py_remove suffix1 s) in
               if smb \<in> set TOP_50_COINS then Inr None
               else
                 (case entry_rate float_of_str rate_field d of
                    Inl e \<Rightarrow> Inl e
                  | Inr rate \<Rightarrow>
                      if rate \<noteq> 0 then
                        (case new_FundingUpdate smb (rate * 100) 0 exch now 0 of
                           Inl e \<Rightarrow> Inl e
                         | Inr u \<Rightarrow> Inr (Some u))
                      else Inr None)
           | _ \<Rightarrow> Inl AttributeError)
      | _ \<Rightarrow> Inl AttributeError)"

text \<open>
  The \<^verbatim>\<open>for\<close> loop inside the \<^verbatim>\<open>try\<close>: it appends to \<^verbatim>\<open>updates\<close>
  until an entry raises. The result is the list as the loop leaves it and the exception
  that ended it, if any.
\<close>

fun parse_entries ::
  "(json \<Rightarrow> error + FundingUpdate option) \<Rightarrow> json list \<Rightarrow> FundingUpdate list
     \<Rightarrow> FundingUpdate list \<times> error option" where
  "parse_entries body [] updates = (updates, None)"
| "parse_entries body (x # xs) updates =
     (case body x of
        Inl e \<Rightarrow> (updates, Some e)
      | Inr None \<Rightarrow> parse_entries body xs updates
      | Inr (Some u) \<Rightarrow> parse_entries body xs (updates @ [u]))"

text \<open>
  The envelope test \<^verbatim>\<open>'data' in data and isinstance(data['data'], list)\<close>. On a dict
  it is a key test and a type test. On a list or a string \<^verbatim>\<open>in\<close> is a membership or
  substring test, and \<^verbatim>\<open>data['data']\<close> then raises \<^verbatim>\<open>TypeError\<close>; on any other
  value \<^verbatim>\<open>in\<close> itself raises \<^verbatim>\<open>TypeError\<close>.
\<close>

fun enveloped :: "string \<Rightarrow> json \<Rightarrow> error + json list option" where
  "enveloped k (JObj d) =
     (case map_of d k of Some (JArr xs) \<Rightarrow> Inr (Some xs) | _ \<Rightarrow> Inr None)"
| "enveloped k (JArr xs) = (if JStr k \<in> set xs then Inl TypeError else Inr None)"
| "enveloped k (JStr s) = (if sublist k s then Inl TypeError else Inr None)"
| "enveloped k JNull = Inl TypeError"
| "enveloped k (JBool b) = Inl TypeError"
| "enveloped k (JNum r) = Inl TypeError"

text \<open>Binance sends the array itself: \<^verbatim>\<open>isinstance(data, list)\<close>.\<close>

fun bare_array :: "json \<Rightarrow> error + json list option" where
  "bare_array (JArr xs) = Inr (Some xs)"
| "bare_array _ = Inr None"

text \<open>
  A parser body: the envelope test and the loop. The parser itself returns
  \<^verbatim>\<open>updates\<close> after the \<^verbatim>\<open>except Exception\<close> clause has swallowed whatever
  the body raised.
\<close>

definition try_parse ::
  "error + json list option \<Rightarrow> (json \<Rightarrow> error + FundingUpdate option)
     \<Rightarrow> FundingUpdate list \<times> error option" where
  "try_parse env body =
     (case env of
        Inl e \<Rightarrow> ([], Some e)
      | Inr None \<Rightarrow> ([], None)
      | Inr (Some xs) \<Rightarrow> parse_entries body xs [])"

text \<open>The loop bodies of the five parsers.\<close>

definition binance_entry :: "(string \<Rightarrow> rat option) \<Rightarrow> datetime \<Rightarrow> json \<Rightarrow> error + FundingUpdate option" where
  "binance_entry fl now = parse_entry fl ''s'' ''USDT'' ''USD'' ''r'' ''Binance'' now"

definition bybit_entry :: "(string \<Rightarrow> rat option) \<Rightarrow> datetime \<Rightarrow> json \<Rightarrow> error + FundingUpdate option" where
  "bybit_entry fl now = parse_entry fl ''symbol'' ''USDT'' ''USD'' ''fundingRate'' ''Bybit'' now"

definition okx_entry :: "(string \<Rightarrow> rat option) \<Rightarrow> datetime \<Rightarrow> json \<Rightarrow> error + FundingUpdate option" where
  "okx_entry fl now =
     parse_entry fl ''instId'' ''-USDT-SWAP'' ''-USD-SWAP'' ''fundingRate'' ''OKX'' now"

definition gateio_entry :: "(string \<Rightarrow> rat option) \<Rightarrow> datetime \<Rightarrow> json \<Rightarrow> error + FundingUpdate option" where
  "gateio_entry fl now =
     parse_entry fl ''contract'' ''_USDT'' ''_USD'' ''funding_rate'' ''Gate.io'' now"

definition bitget_entry :: "(string \<Rightarrow> rat option) \<Rightarrow> datetime \<Rightarrow> json \<Rightarrow> error + FundingUpdate option" where
  "bitget_entry fl now = parse_entry fl ''instId'' ''USDT'' ''USD'' ''fundingRate'' ''Bitget'' now"

definition parse_binance_data :: "(string \<Rightarrow> rat option) \<Rightarrow> datetime \<Rightarrow> json \<Rightarrow> FundingUpdate list" where
  "parse_binance_data fl now data = fst (try_parse (bare_array data) (binance_entry fl now))"

definition parse_bybit_data :: "(string \<Rightarrow> rat option) \<Rightarrow> datetime \<Rightarrow> json \<Rightarrow> FundingUpdate list" where
  "parse_bybit_data fl now data = fst (try_parse (enveloped ''data'' data) (bybit_entry fl now))"

definition parse_okx_data :: "(string \<Rightarrow> rat option) \<Rightarrow> datetime \<Rightarrow> json \<Rightarrow> FundingUpdate list" where
  "parse_okx_data fl now data = fst (try_parse (enveloped ''data'' data) (okx_entry fl now))"

definition parse_gateio_data :: "(string \<Rightarrow> rat option) \<Rightarrow> datetime \<Rightarrow> json \<Rightarrow> FundingUpdate list" where
  "parse_gateio_data fl now data = fst (try_parse (enveloped ''result'' data) (gateio_entry fl now))"

definition parse_bitget_data :: "(string \<Rightarrow> rat option) \<Rightarrow> datetime \<Rightarrow> json \<Rightarrow> FundingUpdate list" where
  "parse_bitget_data fl now data = fst (try_parse (enveloped ''data'' data) (bitget_entry fl now))"

text \<open>
  What a parser returns when its loop runs over the entries \<open>xs\<close>, in the words of the
  amended claim: the events of the entries before the first entry on which the body raises.
\<close>

definition events_before_failure ::
  "(json \<Rightarrow> error + FundingUpdate option) \<Rightarrow> json list \<Rightarrow> FundingUpdate list" where
  "events_before_failure body xs =
     List.map_filter (\<lambda>x. case body x of Inl e \<Rightarrow> None | Inr r \<Rightarrow> r)
       (takeWhile (\<lambda>x. \<not> isl (body x)) xs)"

section \<open>The dispatch queue and the message handler\<close>

text \<open>
  \<^verbatim>\<open>queue.Queue(maxsize)\<close> of the standard library, as far as the monitor uses it: a
  FIFO whose \<^verbatim>\<open>put\<close> waits while \<open>maxsize > 0\<close> and the queue holds
  \<open>maxsize\<close> items, and appends otherwise. \<open>None\<close> stands for a \<^verbatim>\<open>put\<close>
  that waits. The monitor creates its queue with \<^verbatim>\<open>queue.Queue()\<close>, whose
  \<open>maxsize\<close> is 0.
\<close>

record 'a py_queue =
  maxsize :: nat
  pending :: "'a list"



text \<open>The part of \<^verbatim>\<open>RealTimeMonitor\<close> that the message handler and the sweep touch.\<close>

record monitor =
  last_funding_data :: "string \<rightharpoonup> FundingUpdate"
  update_queue :: "FundingUpdate py_queue"
  total_updates :: nat



text \<open>
  The dispatch on the source name; an unknown name leaves the list empty. These are the
  events that \<^verbatim>\<open>process_websocket_message\<close> hands to the filter.
\<close>

definition funding_updates :: "(string \<Rightarrow> rat option) \<Rightarrow> datetime \<Rightarrow> string \<Rightarrow> json \<Rightarrow> FundingUpdate list" where
  "funding_updates fl now exch data =
     (if exch = ''binance'' then parse_binance_data fl now data
      else if exch = ''bybit'' then parse_bybit_data fl now data
      else if exch = ''okx'' then parse_okx_data fl now data
      else if exch = ''gateio'' then parse_gateio_data fl now data
      else if exch = ''bitget'' then parse_bitget_data fl now data
      else [])"


section \<open>The periodic sweep\<close>

text \<open>
  One run of the body of \<^verbatim>\<open>periodic_cleanup\<close> at the clock reading \<open>now\<close>: the keys
  whose event is older than the cutoff are collected and then deleted.
\<close>

definition cleanup_sweep :: "datetime \<Rightarrow> (string \<rightharpoonup> FundingUpdate) \<Rightarrow> (string \<rightharpoonup> FundingUpdate)" where
  "cleanup_sweep now lfd =
     (let cutoff_time = now - hours 1 in
      (\<lambda>key. case lfd key of
                None \<Rightarrow> None
              | Some update \<Rightarrow> if timestamp update < cutoff_time then None else Some update))"

section \<open>The connection supervisor\<close>

text \<open>
  \<^verbatim>\<open>monitor_exchange\<close> loops over connection attempts. What the network does in one
  pass of the loop is one of five things: \<^verbatim>\<open>websockets.connect\<close> raises
  \<^verbatim>\<open>ConnectionClosed\<close> or another exception before the counter is reset; or the
  connection opens, the counter is reset to 0, and the receive loop ends normally, with
  \<^verbatim>\<open>ConnectionClosed\<close>, or with another exception. (The subscription and the
  message handler catch their own exceptions.) The environment of a run is the list of
  these, each paired with the value of \<^verbatim>\<open>is_running\<close> when the pass ends.
  The result records how the coroutine stands when the list is used up.
\<close>

datatype attempt = ConnectClosed | ConnectError | StreamEnded | StreamClosed | StreamError

datatype status = Failed | Stopped | Alive

record supervisor =
  state :: status
  connections :: "string set"
  connections_lost :: nat
  connect_calls :: nat
  unread :: "(attempt \<times> bool) list"

fun monitor_loop ::
  "string \<Rightarrow> nat \<Rightarrow> bool \<Rightarrow> nat \<Rightarrow> string set \<Rightarrow> nat \<Rightarrow> nat \<Rightarrow> (attempt \<times> bool) list
     \<Rightarrow> supervisor" where
  "monitor_loop exch mx running reconnect_count conns lost calls [] =
     (if running \<and> reconnect_count < mx
      then \<lparr>state = Alive, connections = conns, connections_lost = lost,
            connect_calls = calls, unread = []\<rparr>
      else \<lparr>state = (if reconnect_count \<ge> mx then Failed else Stopped),
            connections = conns - {exch}, connections_lost = lost,
            connect_calls = calls, unread = []\<rparr>)"
| "monitor_loop exch mx running reconnect_count conns lost calls ((a, running') # rest) =
     (if running \<and> reconnect_count < mx then
        (case a of
           ConnectClosed \<Rightarrow>
             monitor_loop exch mx running' (reconnect_count + 1) conns (lost + 1) (calls + 1) rest
         | ConnectError \<Rightarrow>
             monitor_loop exch mx running' (reconnect_count + 1) conns lost (calls + 1) rest
         | StreamEnded \<Rightarrow>
             monitor_loop exch mx running' 0 (insert exch conns) lost (calls + 1) rest
         | StreamClosed \<Rightarrow>
             monitor_loop exch mx running' (0 + 1) (insert exch conns) (lost + 1) (calls + 1) rest
         | StreamError \<Rightarrow>
             monitor_loop exch mx running' (0 + 1) (insert exch conns) lost (calls + 1) rest)
      else \<lparr>state = (if reconnect_count \<ge> mx then Failed else Stopped),
            connections = conns - {exch}, connections_lost = lost,
            connect_calls = calls, unread = (a, running') # rest\<rparr>)"

definition monitor_exchange ::
  "string \<Rightarrow> bool \<Rightarrow> string set \<Rightarrow> nat \<Rightarrow> (attempt \<times> bool) list \<Rightarrow> supervisor" where
  "monitor_exchange exch running conns lost env =
     monitor_loop exch max_reconnects running 0 conns lost 0 env"

section \<open>Properties\<close>

lemma post_init_Inr:
  "post_init self = Inr u \<Longrightarrow>
     2 \<le> length (symbol self) \<and> \<bar>funding_rate self\<bar> \<le> 50 \<and>
     u = self\<lparr>apr := (if apr self = 0 then \<bar>funding_rate self\<bar> * 3 * 365 else apr self)\<rparr>"
  by (auto simp: post_init_def split: if_splits)




subsection \<open>The key of the filter's dictionary\<close>

text \<open>
  The key is the string \<^verbatim>\<open>symbol_exchange\<close>. The labels the parsers give
  (\<^verbatim>\<open>Binance\<close>, \<^verbatim>\<open>Bybit\<close>, \<^verbatim>\<open>OKX\<close>, \<^verbatim>\<open>Gate.io\<close>, \<^verbatim>\<open>Bitget\<close>)
  contain no underscore, and for such labels two events have the same key exactly when
  they have the same symbol and the same source.
\<close>

lemma split_at_separator:
  "x \<notin> set a \<Longrightarrow> x \<notin> set b \<Longrightarrow> a @ x # c = b @ x # d \<Longrightarrow> a = b \<and> c = d"
proof (induction a arbitrary: b)
  case Nil
  then show ?case by (cases b) auto
next
  case (Cons y a)
  then show ?case by (cases b) auto
qed

lemma update_key_inj:
  assumes "CHR ''_'' \<notin> set (exchange u)" "CHR ''_'' \<notin> set (exchange v)"
  shows "update_key u = update_key v \<longleftrightarrow> symbol u = symbol v \<and> exchange u = exchange v"
proof
  assume "update_key u = update_key v"
  then have "rev (symbol u @ CHR ''_'' # exchange u) = rev (symbol v @ CHR ''_'' # exchange v)"
    by (simp add: update_key_def)
  then have e: "rev (exchange u) @ CHR ''_'' # rev (symbol u) =
             rev (exchange v) @ CHR ''_'' # rev (symbol v)"
    by simp
  have n1: "CHR ''_'' \<notin> set (rev (exchange u))" and n2: "CHR ''_'' \<notin> set (rev (exchange v))"
    using assms by simp_all
  from split_at_separator [OF n1 n2 e]
  show "symbol u = symbol v \<and> exchange u = exchange v" by simp
next
  assume "symbol u = symbol v \<and> exchange u = exchange v"
  then show "update_key u = update_key v" by (simp add: update_key_def)
qed

subsection \<open>The five outcomes of the filter\<close>

lemma chg_percent_eq:
  "(if b \<noteq> 0 then (\<bar>a - b\<bar> / \<bar>b\<bar>) * 100 else 0) = change_magnitude a b"
  by (simp add: change_magnitude_def)

lemma spu_below:
  "apr u < thr \<Longrightarrow> should_process_update thr lfd u = (False, u, lfd)"
  by (simp add: should_process_update_def)

lemma spu_first:
  "\<not> apr u < thr \<Longrightarrow> lfd (update_key u) = None \<Longrightarrow>
     should_process_update thr lfd u = (True, u, lfd(update_key u \<mapsto> u))"
  by (simp add: should_process_update_def)

lemma spu_gate:
  "\<not> apr u < thr \<Longrightarrow> lfd (update_key u) = Some p \<Longrightarrow>
   timestamp u - timestamp p < seconds 60 \<Longrightarrow>
     should_process_update thr lfd u = (False, u, lfd)"
  by (simp add: should_process_update_def)

lemma spu_small:
  "\<not> apr u < thr \<Longrightarrow> lfd (update_key u) = Some p \<Longrightarrow>
   \<not> timestamp u - timestamp p < seconds 60 \<Longrightarrow>
   change_magnitude (funding_rate u) (funding_rate p) < 10 \<Longrightarrow>
     should_process_update thr lfd u =
       (False, u\<lparr>change_percent := change_magnitude (funding_rate u) (funding_rate p)\<rparr>, lfd)"
  unfolding should_process_update_def Let_def chg_percent_eq by simp

lemma spu_big:
  "\<not> apr u < thr \<Longrightarrow> lfd (update_key u) = Some p \<Longrightarrow>
   \<not> timestamp u - timestamp p < seconds 60 \<Longrightarrow>
   \<not> change_magnitude (funding_rate u) (funding_rate p) < 10 \<Longrightarrow>
     should_process_update thr lfd u =
       (True, u\<lparr>change_percent := change_magnitude (funding_rate u) (funding_rate p)\<rparr>,
        lfd(update_key u \<mapsto>
              u\<lparr>change_percent := change_magnitude (funding_rate u) (funding_rate p)\<rparr>))"
  unfolding should_process_update_def Let_def chg_percent_eq by simp




text \<open>
  C8. When an event has been accepted and a second reading of the same symbol, source, rate
  and APR arrives less than 60 seconds after it, the second is rejected, the event and the
  dictionary are left as they were, and the rejection is the time gate's: the APR reaches
  the floor and the key's prior is the first event, less than 60 seconds old.
\<close>

theorem second_feed_rejected:
  assumes first: "should_process_update thr lfd u1 = (True, u1', lfd1)"
    and same: "symbol u2 = symbol u1" "exchange u2 = exchange u1"
      "funding_rate u2 = funding_rate u1" "apr u2 = apr u1"
    and soon: "timestamp u2 - timestamp u1 < seconds 60"
  shows "should_process_update thr lfd1 u2 = (False, u2, lfd1) \<and>
     thr \<le> apr u2 \<and>
     (\<exists>p. lfd1 (update_key u2) = Some p \<and> timestamp p = timestamp u1 \<and>
          timestamp u2 - timestamp p < seconds 60)"
proof -
  have key: "update_key u2 = update_key u1"
    using same by (simp add: update_key_def)
  have above: "\<not> apr u1 < thr"
    using first spu_below [of u1 thr lfd] by auto
  have stored: "lfd1 (update_key u1) = Some u1' \<and> timestamp u1' = timestamp u1"
  proof (cases "lfd (update_key u1)")
    case None
    from spu_first [of u1 thr lfd, OF above None] first show ?thesis by auto
  next
    case (Some p)
    have late: "\<not> timestamp u1 - timestamp p < seconds 60"
      using first spu_gate [of u1 thr lfd p, OF above Some] by auto
    have big: "\<not> change_magnitude (funding_rate u1) (funding_rate p) < 10"
      using first spu_small [of u1 thr lfd p, OF above Some late] by auto
    from spu_big [of u1 thr lfd p, OF above Some late big] first show ?thesis by auto
  qed
  have above2: "\<not> apr u2 < thr" using above same by simp
  have prior2: "lfd1 (update_key u2) = Some u1'" using stored key by simp
  have soon2: "timestamp u2 - timestamp u1' < seconds 60" using soon stored by simp
  from spu_gate [of u2 thr lfd1 u1', OF above2 prior2 soon2] above2 prior2 soon2 stored
  show ?thesis by auto
qed

theorem second_feed_rejected_witness:
  "should_process_update 50 Map.empty
     \<lparr>symbol = ''XYZ'', funding_rate = 1 / 10, apr = 219 / 2, exchange = ''Binance'',
      timestamp = 0, change_percent = 0\<rparr> =
   (True,
    \<lparr>symbol = ''XYZ'', funding_rate = 1 / 10, apr = 219 / 2, exchange = ''Binance'',
      timestamp = 0, change_percent = 0\<rparr>,
    [''XYZ_Binance'' \<mapsto>
       \<lparr>symbol = ''XYZ'', funding_rate = 1 / 10, apr = 219 / 2, exchange = ''Binance'',
        timestamp = 0, change_percent = 0\<rparr>]) \<and>
   should_process_update 50
     [''XYZ_Binance'' \<mapsto>
       \<lparr>symbol = ''XYZ'', funding_rate = 1 / 10, apr = 219 / 2, exchange = ''Binance'',
        timestamp = 0, change_percent = 0\<rparr>]
     \<lparr>symbol = ''XYZ'', funding_rate = 1 / 10, apr = 219 / 2, exchange = ''Binance'',
      timestamp = 5000000, change_percent = 0\<rparr> =
   (False,
    \<lparr>symbol = ''XYZ'', funding_rate = 1 / 10, apr = 219 / 2, exchange = ''Binance'',
      timestamp = 5000000, change_percent = 0\<rparr>,
    [''XYZ_Binance'' \<mapsto>
       \<lparr>symbol = ''XYZ'', funding_rate = 1 / 10, apr = 219 / 2, exchange = ''Binance'',
        timestamp = 0, change_percent = 0\<rparr>])"
proof -
  have c: "should_process_update 50 Map.empty
     \<lparr>symbol = ''XYZ'', funding_rate = 1 / 10, apr = 219 / 2, exchange = ''Binance'',
      timestamp = 0, change_percent = 0\<rparr> =
   (True,
    \<lparr>symbol = ''XYZ'', funding_rate = 1 / 10, apr = 219 / 2, exchange = ''Binance'',
      timestamp = 0, change_percent = 0\<rparr>,
    [''XYZ_Binance'' \<mapsto>
       \<lparr>symbol = ''XYZ'', funding_rate = 1 / 10, apr = 219 / 2, exchange = ''Binance'',
        timestamp = 0, change_percent = 0\<rparr>])"
    by (simp add: should_process_update_def update_key_def)
  from second_feed_rejected [OF c, of
      "\<lparr>symbol = ''XYZ'', funding_rate = 1 / 10, apr = 219 / 2, exchange = ''Binance'',
        timestamp = 5000000, change_percent = 0\<rparr>"] c
  show ?thesis by (simp add: seconds_def)
qed

text \<open>
  C10. One run of the sweep at the clock reading \<open>now\<close> removes the entry of a key exactly
  when \<open>now\<close> minus the entry's timestamp exceeds one hour; an entry aged one hour or less
  is kept as it is, and no entry is created.
\<close>

theorem sweep_removes_exactly_old:
  "((\<exists>u. lfd key = Some u) \<and> cleanup_sweep now lfd key = None \<longleftrightarrow>
      (\<exists>u. lfd key = Some u \<and> hours 1 < now - timestamp u)) \<and>
   (\<forall>u. lfd key = Some u \<and> now - timestamp u \<le> hours 1 \<longrightarrow>
        cleanup_sweep now lfd key = Some u) \<and>
   (lfd key = None \<longrightarrow> cleanup_sweep now lfd key = None)"
  by (auto simp: cleanup_sweep_def Let_def split: option.splits)

theorem sweep_removes_exactly_old_witness:
  "cleanup_sweep 3600000001
     [''XYZ_Binance'' \<mapsto>
       \<lparr>symbol = ''XYZ'', funding_rate = 1 / 10, apr = 219 / 2, exchange = ''Binance'',
        timestamp = 0, change_percent = 0\<rparr>] ''XYZ_Binance'' = None \<and>
   cleanup_sweep 3600000000
     [''XYZ_Binance'' \<mapsto>
       \<lparr>symbol = ''XYZ'', funding_rate = 1 / 10, apr = 219 / 2, exchange = ''Binance'',
        timestamp = 0, change_percent = 0\<rparr>] ''XYZ_Binance'' =
     Some \<lparr>symbol = ''XYZ'', funding_rate = 1 / 10, apr = 219 / 2, exchange = ''Binance'',
        timestamp = 0, change_percent = 0\<rparr>"
  using sweep_removes_exactly_old [of
      "[''XYZ_Binance'' \<mapsto>
       \<lparr>symbol = ''XYZ'', funding_rate = 1 / 10, apr = 219 / 2, exchange = ''Binance'',
        timestamp = 0, change_percent = 0\<rparr>]" "''XYZ_Binance''" 3600000001]
    sweep_removes_exactly_old [of
      "[''XYZ_Binance'' \<mapsto>
       \<lparr>symbol = ''XYZ'', funding_rate = 1 / 10, apr = 219 / 2, exchange = ''Binance'',
        timestamp = 0, change_percent = 0\<rparr>]" "''XYZ_Binance''" 3600000000]
  by (simp add: hours_def seconds_def)

subsection \<open>What the filter does to the event\<close>




subsection \<open>The supervisor gives up after the maximum of failed attempts\<close>

lemma monitor_loop_exit:
  "\<not> (running \<and> rc < mx) \<Longrightarrow>
     monitor_loop exch mx running rc conns lost calls env =
       \<lparr>state = (if rc \<ge> mx then Failed else Stopped), connections = conns - {exch},
        connections_lost = lost, connect_calls = calls, unread = env\<rparr>"
  by (cases env) auto

lemma monitor_loop_failures:
  "set fs \<subseteq> {ConnectClosed, ConnectError} \<Longrightarrow> rc + length fs = mx \<Longrightarrow>
     monitor_loop exch mx True rc conns lost calls (map (\<lambda>a. (a, True)) fs @ rest) =
       \<lparr>state = Failed, connections = conns - {exch},
        connections_lost = lost + count_list fs ConnectClosed,
        connect_calls = calls + length fs, unread = rest\<rparr>"
proof (induction fs arbitrary: rc lost calls)
  case Nil
  then show ?case by (simp add: monitor_loop_exit)
next
  case (Cons a fs)
  from Cons.prems have lt: "rc < mx" and a: "a = ConnectClosed \<or> a = ConnectError"
    and fs: "set fs \<subseteq> {ConnectClosed, ConnectError}" and len: "(rc + 1) + length fs = mx"
    by auto
  from a show ?case
  proof
    assume "a = ConnectClosed"
    with lt Cons.IH [OF fs len, of "lost + 1" "calls + 1"] show ?thesis by simp
  next
    assume "a = ConnectError"
    with lt Cons.IH [OF fs len, of lost "calls + 1"] show ?thesis by simp
  qed
qed

text \<open>
  C9. While the monitor is running, ten connection attempts in a row that fail before the
  counter is reset (the configured maximum is 10) end the supervisor: it logs that the
  maximum is exceeded (the state \<open>Failed\<close>), it has made exactly ten calls of
  \<^verbatim>\<open>connect\<close> and reads nothing more of what the network would do next, and the source
  is no longer among the connections. This holds from any pass of the loop at which the
  counter is 0, and so for \<^verbatim>\<open>monitor_exchange\<close> from its start.
\<close>

theorem ten_failures_reach_failed:
  assumes len: "length fs = max_reconnects"
    and fails: "set fs \<subseteq> {ConnectClosed, ConnectError}"
  shows
    "state (monitor_loop exch max_reconnects True 0 conns lost calls
              (map (\<lambda>a. (a, True)) fs @ rest)) = Failed \<and>
     connect_calls (monitor_loop exch max_reconnects True 0 conns lost calls
              (map (\<lambda>a. (a, True)) fs @ rest)) = calls + 10 \<and>
     unread (monitor_loop exch max_reconnects True 0 conns lost calls
              (map (\<lambda>a. (a, True)) fs @ rest)) = rest \<and>
     exch \<notin> connections (monitor_loop exch max_reconnects True 0 conns lost calls
              (map (\<lambda>a. (a, True)) fs @ rest)) \<and>
     state (monitor_exchange exch True conns lost (map (\<lambda>a. (a, True)) fs @ rest)) = Failed \<and>
     connect_calls (monitor_exchange exch True conns lost (map (\<lambda>a. (a, True)) fs @ rest)) = 10 \<and>
     unread (monitor_exchange exch True conns lost (map (\<lambda>a. (a, True)) fs @ rest)) = rest \<and>
     exch \<notin> connections (monitor_exchange exch True conns lost (map (\<lambda>a. (a, True)) fs @ rest))"
proof -
  have l: "0 + length fs = max_reconnects" using len by simp
  have ten: "length fs = 10" using len by (simp add: max_reconnects_def)
  show ?thesis
    unfolding monitor_exchange_def monitor_loop_failures [OF fails l]
    by (simp add: ten)
qed

theorem ten_failures_reach_failed_witness:
  "state (monitor_exchange ''binance'' True {''okx''} 0
     (map (\<lambda>a. (a, True)) (replicate 10 ConnectError) @ [(StreamEnded, True)])) = Failed \<and>
   connect_calls (monitor_exchange ''binance'' True {''okx''} 0
     (map (\<lambda>a. (a, True)) (replicate 10 ConnectError) @ [(StreamEnded, True)])) = 10 \<and>
   unread (monitor_exchange ''binance'' True {''okx''} 0
     (map (\<lambda>a. (a, True)) (replicate 10 ConnectError) @ [(StreamEnded, True)])) =
     [(StreamEnded, True)]"
  using ten_failures_reach_failed [of "replicate 10 ConnectError" "''binance''" "{''okx''}" 0 0
      "[(StreamEnded, True)]"]
  by (simp add: max_reconnects_def)

subsection \<open>What the parsers return\<close>

lemma events_before_failure_Nil: "events_before_failure body [] = []"
  by (simp add: events_before_failure_def map_filter_simps)

lemma events_before_failure_Cons:
  "events_before_failure body (x # xs) =
     (case body x of
        Inl e \<Rightarrow> []
      | Inr None \<Rightarrow> events_before_failure body xs
      | Inr (Some u) \<Rightarrow> u # events_before_failure body xs)"
  by (simp add: events_before_failure_def map_filter_simps split: sum.splits option.splits)

lemma parse_entries_events:
  "fst (parse_entries body xs acc) = acc @ events_before_failure body xs"
proof (induction xs arbitrary: acc)
  case Nil
  show ?case by (simp add: events_before_failure_Nil)
next
  case (Cons x xs)
  show ?case
    by (simp add: events_before_failure_Cons Cons.IH split: sum.splits option.splits)
qed

lemma try_parse_events:
  "fst (try_parse env body) =
     (case env of Inr (Some xs) \<Rightarrow> events_before_failure body xs | _ \<Rightarrow> [])"
  by (simp add: try_parse_def parse_entries_events split: sum.splits option.splits)

lemma in_events_before_failure:
  "u \<in> set (events_before_failure body xs) \<Longrightarrow> \<exists>x\<in>set xs. body x = Inr (Some u)"
proof (induction xs)
  case Nil
  then show ?case by (simp add: events_before_failure_Nil)
next
  case (Cons x xs)
  then show ?case
    by (auto simp: events_before_failure_Cons split: sum.splits option.splits)
qed

lemma new_FundingUpdate_Inr:
  "new_FundingUpdate smb rate a exch ts chg = Inr u \<Longrightarrow>
     \<bar>rate\<bar> \<le> 50 \<and> funding_rate u = rate \<and> symbol u = smb \<and> exchange u = exch \<and>
     timestamp u = ts \<and> change_percent u = chg"
  by (auto simp: new_FundingUpdate_def dest!: post_init_Inr)

lemma parse_entry_Some:
  assumes "parse_entry fl nf s1 s2 rf ex now item = Inr (Some u)"
  shows "\<exists>d v. item = JObj d \<and> entry_rate fl rf d = Inr v \<and> v \<noteq> 0 \<and>
           funding_rate u = v * 100 \<and> \<bar>funding_rate u\<bar> \<le> 50"
proof -
  from assms obtain d where d: "item = JObj d"
    by (cases item) (simp_all add: parse_entry_def)
  from assms d obtain s where s: "dict_get d nf (JStr []) = JStr s"
    by (cases "dict_get d nf (JStr [])") (simp_all add: parse_entry_def)
  from assms d s obtain v where v: "entry_rate fl rf d = Inr v"
    by (cases "entry_rate fl rf d") (simp_all add: parse_entry_def Let_def split: if_splits)
  from assms d s v have nz: "v \<noteq> 0"
    by (auto simp: parse_entry_def Let_def split: if_splits)
  from assms d s v nz
  have "new_FundingUpdate (py_remove s2 (py_remove s1 s)) (v * 100) 0 ex now 0 = Inr u"
    by (auto simp: parse_entry_def Let_def split: if_splits sum.splits)
  from new_FundingUpdate_Inr [OF this] d v nz show ?thesis by auto
qed

text \<open>Two Binance entries: a reading of 0.001, and a reading of 2, which is out of range.\<close>

lemma binance_good_entry:
  "binance_entry (\<lambda>s. None) 0 (JObj [(''s'', JStr ''XYZUSDT''), (''r'', JNum (1 / 1000))]) =
     Inr (Some \<lparr>symbol = ''XYZ'', funding_rate = 1 / 10, apr = 219 / 2,
                exchange = ''Binance'', timestamp = 0, change_percent = 0\<rparr>)"
  by (simp add: binance_entry_def parse_entry_def entry_rate_def dict_get_def
        new_FundingUpdate_def post_init_def TOP_50_COINS_def)

lemma binance_bad_entry:
  "binance_entry (\<lambda>s. None) 0 (JObj [(''s'', JStr ''ABCUSDT''), (''r'', JNum 2)]) =
     Inl ValueError"
  by (simp add: binance_entry_def parse_entry_def entry_rate_def dict_get_def
        new_FundingUpdate_def post_init_def TOP_50_COINS_def)




subsection \<open>The rate of a parsed event\<close>

lemma parsed_event_rate:
  assumes u: "u \<in> set (fst (try_parse env (parse_entry fl nf s1 s2 rf ex now)))"
  shows "\<exists>xs d v. env = Inr (Some xs) \<and> JObj d \<in> set xs \<and> entry_rate fl rf d = Inr v \<and>
           v \<noteq> 0 \<and> funding_rate u = v * 100 \<and> \<bar>funding_rate u\<bar> \<le> 50"
proof -
  from u obtain xs where env: "env = Inr (Some xs)"
    and ev: "u \<in> set (events_before_failure (parse_entry fl nf s1 s2 rf ex now) xs)"
    by (auto simp: try_parse_events split: sum.splits option.splits)
  from in_events_before_failure [OF ev] obtain x
    where x: "x \<in> set xs" "parse_entry fl nf s1 s2 rf ex now x = Inr (Some u)" by blast
  from parse_entry_Some [OF x(2)] x(1) env show ?thesis by blast
qed





subsection \<open>Rates beyond 50 do not reach the filter\<close>

lemma funding_updates_rate:
  "u \<in> set (funding_updates fl now exch data) \<Longrightarrow> \<bar>funding_rate u\<bar> \<le> 50"
  unfolding funding_updates_def parse_binance_data_def parse_bybit_data_def parse_okx_data_def
    parse_gateio_data_def parse_bitget_data_def binance_entry_def bybit_entry_def
    okx_entry_def gateio_entry_def bitget_entry_def
  by (auto split: if_splits dest: parsed_event_rate)

text \<open>
  C6. Every event that the message handler hands to the filter has a rate of magnitude at
  most 50, whatever the source and the payload: the constructor raises on a rate beyond 50
  and the parser swallows the exception without appending the event.
\<close>

theorem no_rate_beyond_50_reaches_filter:
  "(\<forall>u\<in>set (funding_updates fl now exch data). \<bar>funding_rate u\<bar> \<le> 50) \<and>
   (50 < \<bar>rate\<bar> \<longrightarrow> new_FundingUpdate smb rate a ex ts chg = Inl ValueError)"
  by (auto simp: funding_updates_rate new_FundingUpdate_def post_init_def)

lemma funding_updates_example:
  "funding_updates (\<lambda>s. None) 0 ''binance''
     (JArr [JObj [(''s'', JStr ''XYZUSDT''), (''r'', JNum (1 / 1000))],
            JObj [(''s'', JStr ''ABCUSDT''), (''r'', JNum 2)]]) =
   [\<lparr>symbol = ''XYZ'', funding_rate = 1 / 10, apr = 219 / 2,
     exchange = ''Binance'', timestamp = 0, change_percent = 0\<rparr>]"
  by (simp add: funding_updates_def parse_binance_data_def try_parse_def
        binance_good_entry binance_bad_entry)

theorem no_rate_beyond_50_reaches_filter_witness:
  "funding_updates (\<lambda>s. None) 0 ''binance''
     (JArr [JObj [(''s'', JStr ''XYZUSDT''), (''r'', JNum (1 / 1000))],
            JObj [(''s'', JStr ''ABCUSDT''), (''r'', JNum 2)]]) =
   [\<lparr>symbol = ''XYZ'', funding_rate = 1 / 10, apr = 219 / 2,
     exchange = ''Binance'', timestamp = 0, change_percent = 0\<rparr>] \<and>
   \<bar>funding_rate \<lparr>symbol = ''XYZ'', funding_rate = 1 / 10, apr = 219 / 2,
     exchange = ''Binance'', timestamp = 0, change_percent = 0\<rparr>\<bar> \<le> 50 \<and>
   new_FundingUpdate ''ABC'' 200 0 ''Binance'' 0 0 = Inl ValueError"
  using no_rate_beyond_50_reaches_filter [of "\<lambda>s. None" 0 "''binance''"
      "JArr [JObj [(''s'', JStr ''XYZUSDT''), (''r'', JNum (1 / 1000))],
            JObj [(''s'', JStr ''ABCUSDT''), (''r'', JNum 2)]]" 200 "''ABC''" 0 "''Binance''" 0 0]
    funding_updates_example
  by simp

subsection \<open>The dispatch queue has no bound\<close>







end
